theory Spec2Isabelle
  imports Complex_Main "HOL-Library.Log_Nat"
begin

section \<open>Numbers, errors and dictionaries\<close>

text \<open>
  The planning engine of \<^verbatim>\<open>rebalance_marcos.py\<close> computes with Python floats and ints.

  The portfolio and the contribution allocator are modelled in IEEE 754 binary64
  arithmetic, the arithmetic of a Python float: every operation rounds its exact result
  to the nearest double (a tie goes to the even one), overflows to an infinity, and
  produces and propagates NaN. What these functions return, and whether they raise,
  depends on that rounding and overflow. The sign of a zero is not modelled: no
  operation of the source can tell the two zeros apart.

  The compounding simulators and the goal solvers are modelled in exact real arithmetic.
  The statements made about them below (which arguments are rejected, how many values a
  trace has, in which order a month's step adds and grows, monotonicity, the short
  circuit of the solver) are about the program's control flow and formulas and do not
  depend on rounding.

  Python raises exceptions; the model returns them as values of a sum type, \<open>Inl\<close> the
  exception. A Python \<^verbatim>\<open>dict\<close> keeps its keys in insertion order and has no duplicate
  keys; it is modelled as an association list in that order.
\<close>

datatype error = ValueError string | KeyError string | OverflowError string

type_synonym 'v dict = "(string \<times> 'v) list"

definition keys :: "'v dict \<Rightarrow> string list" where
  "keys d = map fst d"

definition dict_values :: "'v dict \<Rightarrow> 'v list" where
  "dict_values d = map snd d"

text \<open>\<^verbatim>\<open>d[k]\<close> raises KeyError on a missing key; \<^verbatim>\<open>d.get(k, default)\<close> does not.\<close>

definition getitem :: "'v dict \<Rightarrow> string \<Rightarrow> error + 'v" where
  "getitem d k = (case map_of d k of None \<Rightarrow> Inl (KeyError k) | Some v \<Rightarrow> Inr v)"

definition get_default :: "'v dict \<Rightarrow> string \<Rightarrow> 'v \<Rightarrow> 'v" where
  "get_default d k dflt = (case map_of d k of None \<Rightarrow> dflt | Some v \<Rightarrow> v)"

text \<open>\<^verbatim>\<open>d[k] = v\<close>: an existing key keeps its position, a new key goes to the end.\<close>

fun setitem :: "'v dict \<Rightarrow> string \<Rightarrow> 'v \<Rightarrow> 'v dict" where
  "setitem [] k v = [(k, v)]"
| "setitem ((k', v') # rest) k v =
     (if k' = k then (k, v) # rest else (k', v') # setitem rest k v)"

text \<open>
  Python 3's \<^verbatim>\<open>round(x)\<close> with one argument returns the nearest integer and rounds a
  tie to the even neighbour; \<^verbatim>\<open>int(round(x))\<close> is the same integer.
\<close>

definition py_round :: "real \<Rightarrow> int" where
  "py_round x =
     (let f = \<lfloor>x\<rfloor>; d = x - of_int f
      in if d < 1 / 2 then f
         else if 1 / 2 < d then f + 1
         else if even f then f else f + 1)"

text \<open>
  \<^verbatim>\<open>max(d, key=lambda k: d[k])\<close> walks the keys in order and keeps the first key whose
  value is maximal; on an empty dictionary it raises ValueError.
\<close>

fun max_scan :: "string \<times> int \<Rightarrow> int dict \<Rightarrow> string" where
  "max_scan (bk, bv) [] = bk"
| "max_scan (bk, bv) ((k, v) # rest) =
     (if bv < v then max_scan (k, v) rest else max_scan (bk, bv) rest)"

fun max_key :: "int dict \<Rightarrow> error + string" where
  "max_key [] = Inl (ValueError ''max() arg is an empty sequence'')"
| "max_key ((k, v) # rest) = Inr (max_scan (k, v) rest)"

section \<open>Binary64 floats\<close>

text \<open>
  A Python float is a finite double, one of the two infinities, or NaN. A finite double
  is carried as the real number it denotes.
\<close>

datatype pyfloat = Fin real | PInf | NInf | NaN

definition pow2 :: "int \<Rightarrow> real" where
  "pow2 e = (if 0 \<le> e then 2 ^ nat e else 1 / 2 ^ nat (- e))"

text \<open>
  The binary exponent of a positive real \<open>x\<close>: the integer \<open>e\<close> with
  \<open>2\<^sup>e \<le> x < 2\<^sup>e\<^sup>+\<^sup>1\<close>, computed from the bit length of an integer.
\<close>

definition binexp :: "real \<Rightarrow> int" where
  "binexp x =
     (if 1 \<le> x then int (floorlog 2 (nat \<lfloor>x\<rfloor>)) - 1
      else - int (floorlog 2 (nat (\<lceil>1 / x\<rceil> - 1))))"

text \<open>
  Rounding a real to binary64, to nearest with ties to even: the doubles around \<open>x\<close>
  are the multiples of \<open>2\<^sup>e\<^sup>-\<^sup>5\<^sup>2\<close>, where \<open>e\<close> is the exponent of \<open>x\<close> and at least
  -1022 (below that the doubles are subnormal and equally spaced); a result of magnitude
  \<open>2\<^sup>1\<^sup>0\<^sup>2\<^sup>4\<close> or more overflows to an infinity.
\<close>

definition fl64 :: "real \<Rightarrow> pyfloat" where
  "fl64 x =
     (if x = 0 then Fin 0
      else
        (let e = max (binexp \<bar>x\<bar>) (- 1022);
             ulp = pow2 (e - 52);
             r = of_int (py_round (x / ulp)) * ulp
         in if 2 ^ 1024 \<le> \<bar>r\<bar> then (if 0 < x then PInf else NInf) else Fin r))"

fun fneg :: "pyfloat \<Rightarrow> pyfloat" where
  "fneg (Fin a) = Fin (- a)"
| "fneg PInf = NInf"
| "fneg NInf = PInf"
| "fneg NaN = NaN"

fun fadd :: "pyfloat \<Rightarrow> pyfloat \<Rightarrow> pyfloat" where
  "fadd NaN y = NaN"
| "fadd x NaN = NaN"
| "fadd (Fin a) (Fin b) = fl64 (a + b)"
| "fadd PInf NInf = NaN"
| "fadd NInf PInf = NaN"
| "fadd PInf y = PInf"
| "fadd NInf y = NInf"
| "fadd (Fin a) y = y"

definition fsub :: "pyfloat \<Rightarrow> pyfloat \<Rightarrow> pyfloat" where
  "fsub x y = fadd x (fneg y)"

text \<open>The sign of a float that is not NaN: -1, 0 or 1.\<close>

fun fsign :: "pyfloat \<Rightarrow> int" where
  "fsign (Fin a) = (if a < 0 then - 1 else if a = 0 then 0 else 1)"
| "fsign PInf = 1"
| "fsign NInf = - 1"
| "fsign NaN = 0"

definition signed_inf :: "int \<Rightarrow> pyfloat" where
  "signed_inf s = (if s < 0 then NInf else PInf)"

fun fmul :: "pyfloat \<Rightarrow> pyfloat \<Rightarrow> pyfloat" where
  "fmul NaN y = NaN"
| "fmul x NaN = NaN"
| "fmul (Fin a) (Fin b) = fl64 (a * b)"
| "fmul x y = (if fsign x * fsign y = 0 then NaN else signed_inf (fsign x * fsign y))"

text \<open>
  \<^verbatim>\<open>x / y\<close> for a divisor that is not zero. Python raises ZeroDivisionError on a zero
  divisor; every division of the modelled functions stands behind a test that the
  divisor is not 0, so that case is never evaluated.
\<close>

fun fdiv :: "pyfloat \<Rightarrow> pyfloat \<Rightarrow> pyfloat" where
  "fdiv NaN y = NaN"
| "fdiv x NaN = NaN"
| "fdiv (Fin a) (Fin b) = (if b = 0 then NaN else fl64 (a / b))"
| "fdiv (Fin a) y = Fin 0"
| "fdiv x (Fin b) = (if b < 0 then fneg x else x)"
| "fdiv x y = NaN"

text \<open>Comparisons: every comparison with NaN is false.\<close>

fun flt :: "pyfloat \<Rightarrow> pyfloat \<Rightarrow> bool" where
  "flt NaN y = False"
| "flt x NaN = False"
| "flt (Fin a) (Fin b) = (a < b)"
| "flt x NInf = False"
| "flt PInf y = False"
| "flt x y = True"

definition fgt :: "pyfloat \<Rightarrow> pyfloat \<Rightarrow> bool" where
  "fgt x y = flt y x"

definition feq :: "pyfloat \<Rightarrow> pyfloat \<Rightarrow> bool" where
  "feq x y = (x = y \<and> x \<noteq> NaN)"

fun fabs :: "pyfloat \<Rightarrow> pyfloat" where
  "fabs (Fin a) = Fin \<bar>a\<bar>"
| "fabs PInf = PInf"
| "fabs NInf = PInf"
| "fabs NaN = NaN"

text \<open>
  \<^verbatim>\<open>max(a, b)\<close> keeps \<open>a\<close> unless \<^verbatim>\<open>b > a\<close>; so \<^verbatim>\<open>max(0.0, nan)\<close> is \<^verbatim>\<open>0.0\<close>.
\<close>

definition py_max :: "pyfloat \<Rightarrow> pyfloat \<Rightarrow> pyfloat" where
  "py_max a b = (if fgt b a then b else a)"

text \<open>
  \<^verbatim>\<open>sum(xs)\<close> over floats: starting from 0, the values are added from left to right, each
  addition rounded. (CPython from 3.12 on also carries a correction term for the rounding
  errors; the sums evaluated below are the same either way.)
\<close>

definition py_sum :: "pyfloat list \<Rightarrow> pyfloat" where
  "py_sum xs = foldl fadd (Fin 0) xs"

text \<open>\<^verbatim>\<open>int(round(x))\<close> of a float raises on NaN and on an infinity.\<close>

fun round_float :: "pyfloat \<Rightarrow> error + int" where
  "round_float (Fin a) = Inr (py_round a)"
| "round_float NaN = Inl (ValueError ''cannot convert float NaN to integer'')"
| "round_float x = Inl (OverflowError ''cannot convert float infinity to integer'')"

text \<open>
  An int that meets a float in an arithmetic operation is converted to the nearest
  double; the conversion raises when the int is beyond the range of the doubles.
\<close>

definition int_to_float :: "int \<Rightarrow> error + pyfloat" where
  "int_to_float n =
     (case fl64 (of_int n) of
        Fin r \<Rightarrow> Inr (Fin r)
      | _ \<Rightarrow> Inl (OverflowError ''int too large to convert to float''))"

section \<open>Portfolio\<close>

record Portfolio =
  holdings :: "pyfloat dict"
  targets :: "pyfloat dict"
  asset_types :: "string dict option"

definition total_value :: "Portfolio \<Rightarrow> pyfloat" where
  "total_value p = py_sum (dict_values (holdings p))"

definition current_weights :: "Portfolio \<Rightarrow> pyfloat dict" where
  "current_weights p =
     (let total = total_value p
      in if feq total (Fin 0) then map (\<lambda>(k, v). (k, Fin 0)) (holdings p)
         else map (\<lambda>(k, v). (k, fdiv v total)) (holdings p))"

section \<open>Contribution allocator\<close>

text \<open>
  The plan returned by \<^verbatim>\<open>compute_contribution_plan\<close> holds Python ints on the main path
  (\<^verbatim>\<open>int(round(amount))\<close>) and Python floats on the early return taken when nothing is
  needed (\<^verbatim>\<open>monthly_contribution * targets[asset]\<close>).
\<close>

datatype amount = IntAmount int | FloatAmount pyfloat

text \<open>
  \<^verbatim>\<open>sum(plan.values())\<close>: ints add exactly; an int that meets a float is converted
  first.
\<close>

fun add_amount :: "amount \<Rightarrow> amount \<Rightarrow> error + amount" where
  "add_amount (IntAmount a) (IntAmount b) = Inr (IntAmount (a + b))"
| "add_amount (FloatAmount x) (FloatAmount y) = Inr (FloatAmount (fadd x y))"
| "add_amount (IntAmount a) (FloatAmount y) =
     (case int_to_float a of Inl e \<Rightarrow> Inl e | Inr x \<Rightarrow> Inr (FloatAmount (fadd x y)))"
| "add_amount (FloatAmount x) (IntAmount b) =
     (case int_to_float b of Inl e \<Rightarrow> Inl e | Inr y \<Rightarrow> Inr (FloatAmount (fadd x y)))"

fun sum_amounts :: "amount \<Rightarrow> amount list \<Rightarrow> error + amount" where
  "sum_amounts acc [] = Inr acc"
| "sum_amounts acc (a # rest) =
     (case add_amount acc a of Inl e \<Rightarrow> Inl e | Inr acc' \<Rightarrow> sum_amounts acc' rest)"

definition plan_sum :: "amount dict \<Rightarrow> error + amount" where
  "plan_sum plan = sum_amounts (IntAmount 0) (dict_values plan)"

text \<open>
  The body of the loop over \<^verbatim>\<open>targets.items()\<close> (source lines 43 to 57): both branches
  of the threshold test are written out as the source has them.
\<close>

definition needed_for :: "pyfloat \<Rightarrow> pyfloat dict \<Rightarrow> pyfloat \<Rightarrow> string \<Rightarrow> pyfloat \<Rightarrow> pyfloat \<Rightarrow> pyfloat" where
  "needed_for rebalance_threshold current_w total_after asset target_w current_value =
     (let target_value = fmul target_w total_after
      in if fgt rebalance_threshold (Fin 0) then
           (let curr_weight = get_default current_w asset (Fin 0);
                diff = fabs (fsub curr_weight target_w)
            in if flt diff rebalance_threshold
               then py_max (Fin 0) (fsub target_value current_value)
               else py_max (Fin 0) (fsub target_value current_value))
         else py_max (Fin 0) (fsub target_value current_value))"

text \<open>
  The keys of \<^verbatim>\<open>targets\<close> are distinct, so every assignment \<^verbatim>\<open>needed_raw[asset] = needed\<close>
  adds a new key at the end.
\<close>

fun needed_loop :: "pyfloat dict \<Rightarrow> pyfloat dict \<Rightarrow> pyfloat \<Rightarrow> pyfloat \<Rightarrow> pyfloat dict \<Rightarrow> error + pyfloat dict" where
  "needed_loop hs current_w total_after rebalance_threshold [] = Inr []"
| "needed_loop hs current_w total_after rebalance_threshold ((asset, target_w) # rest) =
     (case getitem hs asset of
        Inl e \<Rightarrow> Inl e
      | Inr current_value \<Rightarrow>
          (case needed_loop hs current_w total_after rebalance_threshold rest of
             Inl e \<Rightarrow> Inl e
           | Inr needed_rest \<Rightarrow>
               Inr ((asset,
                     needed_for rebalance_threshold current_w total_after asset target_w
                       current_value) # needed_rest)))"

text \<open>The early return: \<^verbatim>\<open>{asset: monthly_contribution * targets[asset] for asset in holdings}\<close>.\<close>

fun proportional_plan :: "pyfloat dict \<Rightarrow> pyfloat \<Rightarrow> string list \<Rightarrow> error + amount dict" where
  "proportional_plan ts monthly_contribution [] = Inr []"
| "proportional_plan ts monthly_contribution (asset # rest) =
     (case getitem ts asset of
        Inl e \<Rightarrow> Inl e
      | Inr target_w \<Rightarrow>
          (case proportional_plan ts monthly_contribution rest of
             Inl e \<Rightarrow> Inl e
           | Inr plan_rest \<Rightarrow>
               Inr ((asset, FloatAmount (fmul monthly_contribution target_w)) # plan_rest)))"

definition shares :: "pyfloat dict \<Rightarrow> pyfloat \<Rightarrow> pyfloat \<Rightarrow> pyfloat dict" where
  "shares needed_raw total_needed monthly_contribution =
     map (\<lambda>(asset, needed).
            (asset, fmul (if feq total_needed (Fin 0) then Fin 0
                          else fdiv needed total_needed)
                      monthly_contribution))
         needed_raw"

text \<open>
  \<^verbatim>\<open>{asset: int(round(amount)) for asset, amount in contributions.items()}\<close>: the first amount
  that is NaN or infinite raises.
\<close>

fun round_all :: "pyfloat dict \<Rightarrow> error + int dict" where
  "round_all [] = Inr []"
| "round_all ((asset, amount) # rest) =
     (case round_float amount of
        Inl e \<Rightarrow> Inl e
      | Inr n \<Rightarrow>
          (case round_all rest of
             Inl e \<Rightarrow> Inl e
           | Inr rounded_rest \<Rightarrow> Inr ((asset, n) # rounded_rest)))"

text \<open>
  Source lines 79 to 82. The amounts are ints and their sum is exact; the subtraction
  \<^verbatim>\<open>monthly_contribution - sum(...)\<close> converts that sum to a float.
\<close>

definition settle_diff :: "pyfloat \<Rightarrow> int dict \<Rightarrow> error + int dict" where
  "settle_diff monthly_contribution contributions =
     (case int_to_float (sum_list (dict_values contributions)) of
        Inl e \<Rightarrow> Inl e
      | Inr amounts_sum \<Rightarrow>
          (case round_float (fsub monthly_contribution amounts_sum) of
             Inl e \<Rightarrow> Inl e
           | Inr diff \<Rightarrow>
               if diff \<noteq> 0 then
                 (case max_key contributions of
                    Inl e \<Rightarrow> Inl e
                  | Inr biggest \<Rightarrow>
                      (case getitem contributions biggest of
                         Inl e \<Rightarrow> Inl e
                       | Inr old \<Rightarrow> Inr (setitem contributions biggest (old + diff))))
               else Inr contributions))"

definition compute_contribution_plan :: "Portfolio \<Rightarrow> pyfloat \<Rightarrow> pyfloat \<Rightarrow> error + amount dict" where
  "compute_contribution_plan portfolio monthly_contribution rebalance_threshold =
     (if set (keys (holdings portfolio)) \<noteq> set (keys (targets portfolio))
      then Inl (ValueError ''Las claves de holdings y targets deben coincidir.'')
      else
        (let total_before = total_value portfolio;
             total_after = fadd total_before monthly_contribution;
             current_w = current_weights portfolio
         in case needed_loop (holdings portfolio) current_w total_after rebalance_threshold
                   (targets portfolio) of
              Inl e \<Rightarrow> Inl e
            | Inr needed_raw \<Rightarrow>
                (let total_needed = py_sum (dict_values needed_raw)
                 in if feq total_needed (Fin 0)
                    then proportional_plan (targets portfolio) monthly_contribution
                           (keys (holdings portfolio))
                    else
                      (case round_all (shares needed_raw total_needed monthly_contribution) of
                         Inl e \<Rightarrow> Inl e
                       | Inr rounded \<Rightarrow>
                           (case settle_diff monthly_contribution rounded of
                              Inl e \<Rightarrow> Inl e
                            | Inr contributions \<Rightarrow>
                                Inr (map (\<lambda>(asset, n). (asset, IntAmount n))
                                       contributions))))))"

section \<open>Compounding simulators\<close>

text \<open>
  \<^verbatim>\<open>r_m = (1 + annual_return) ** (1 / 12) - 1\<close>. For a base that is not negative the real
  power \<open>powr\<close> is the value Python's float power approximates.
\<close>

definition monthly_rate :: "real \<Rightarrow> real" where
  "monthly_rate annual_return = (1 + annual_return) powr (1 / 12) - 1"

text \<open>The contribution of month \<open>m\<close> of a ramp (source lines 110 to 113).\<close>

definition ramp_contrib :: "real \<Rightarrow> real \<Rightarrow> int \<Rightarrow> nat \<Rightarrow> real" where
  "ramp_contrib initial_monthly final_monthly months m =
     (if months = 1 then final_monthly
      else initial_monthly
           + (final_monthly - initial_monthly) * (of_nat m / of_int (months - 1)))"

text \<open>
  The loop \<^verbatim>\<open>for m in range(months)\<close>, run over the list of month indices; its state is
  the running value and the list of monthly values.
\<close>

fun ramp_loop :: "real \<Rightarrow> real \<Rightarrow> int \<Rightarrow> real \<Rightarrow> nat list \<Rightarrow> real \<times> real list \<Rightarrow> real \<times> real list" where
  "ramp_loop initial_monthly final_monthly months r_m [] st = st"
| "ramp_loop initial_monthly final_monthly months r_m (m # ms) (val, monthly_values) =
     (let contrib = ramp_contrib initial_monthly final_monthly months m;
          val1 = val + contrib;
          val2 = val1 * (1 + r_m)
      in ramp_loop initial_monthly final_monthly months r_m ms (val2, monthly_values @ [val2]))"

definition simulate_dca_ramp :: "real \<Rightarrow> real \<Rightarrow> int \<Rightarrow> real \<Rightarrow> real \<Rightarrow> error + real \<times> real list" where
  "simulate_dca_ramp initial_monthly final_monthly years annual_return initial_value =
     (let months = years * 12
      in if months \<le> 0 then Inl (ValueError ''years debe ser > 0'')
         else Inr (ramp_loop initial_monthly final_monthly months (monthly_rate annual_return)
                     [0 ..< nat months] (initial_value, [])))"

text \<open>
  The loop \<^verbatim>\<open>for _ in range(months)\<close> of the constant plan. The source annotates
  \<^verbatim>\<open>monthly_contribution\<close> as an int; it is only ever added to a float, so the model takes
  any real.
\<close>

fun constant_loop :: "real \<Rightarrow> real \<Rightarrow> nat \<Rightarrow> real \<times> real list \<Rightarrow> real \<times> real list" where
  "constant_loop monthly_contribution r_m 0 st = st"
| "constant_loop monthly_contribution r_m (Suc n) (val, monthly_values) =
     (let val1 = val + monthly_contribution;
          val2 = val1 * (1 + r_m)
      in constant_loop monthly_contribution r_m n (val2, monthly_values @ [val2]))"

definition simulate_constant_plan :: "real \<Rightarrow> real \<Rightarrow> int \<Rightarrow> real \<Rightarrow> real \<Rightarrow> error + real \<times> real list" where
  "simulate_constant_plan current_total monthly_contribution years annual_return extra_savings =
     (if years \<le> 0 then Inl (ValueError ''years debe ser > 0'')
      else
        (let months = years * 12;
             r_m = monthly_rate annual_return;
             val = current_total + extra_savings
         in Inr (constant_loop monthly_contribution r_m (nat months) (val, []))))"

section \<open>Goal solvers\<close>

text \<open>
  Both solvers run the same loop, 40 and 30 times: halve the interval, keep the half on
  whose upper end the net final value reaches the goal.
\<close>

fun bisect_loop :: "(real \<Rightarrow> error + real) \<Rightarrow> real \<Rightarrow> nat \<Rightarrow> real \<times> real \<Rightarrow> error + real \<times> real" where
  "bisect_loop net_final objetivo_final 0 (low, high) = Inr (low, high)"
| "bisect_loop net_final objetivo_final (Suc n) (low, high) =
     (let mid = (low + high) / 2
      in case net_final mid of
           Inl e \<Rightarrow> Inl e
         | Inr net_val \<Rightarrow>
             if net_val < objetivo_final
             then bisect_loop net_final objetivo_final n (mid, high)
             else bisect_loop net_final objetivo_final n (low, mid))"

text \<open>The closure \<^verbatim>\<open>net_final_with_monthly\<close>, with the variables it captures as parameters.\<close>

definition net_final_with_monthly :: "real \<Rightarrow> int \<Rightarrow> real \<Rightarrow> real \<Rightarrow> real \<Rightarrow> real \<Rightarrow> error + real" where
  "net_final_with_monthly current_total years annual_return extra_savings tax_rate C =
     (let months = years * 12;
          C_int0 = py_round C;
          C_int = (if C_int0 < 0 then 0 else C_int0)
      in case simulate_constant_plan current_total (of_int C_int) years annual_return
                extra_savings of
           Inl e \<Rightarrow> Inl e
         | Inr (final_value, monthly_values) \<Rightarrow>
             (let principal_total = current_total + extra_savings + of_int (C_int * months);
                  gain = max 0 (final_value - principal_total);
                  tax = tax_rate * gain;
                  net_final = final_value - tax
              in Inr net_final))"

definition required_constant_monthly_for_goal :: "real \<Rightarrow> real \<Rightarrow> int \<Rightarrow> real \<Rightarrow> real \<Rightarrow> real \<Rightarrow> error + int" where
  "required_constant_monthly_for_goal current_total objetivo_final years annual_return
       extra_savings tax_rate =
     (if years \<le> 0 then Inl (ValueError ''years debe ser > 0'')
      else if annual_return < 0 then Inl (ValueError ''annual_return no puede ser negativo'')
      else if \<not> (0 \<le> tax_rate \<and> tax_rate \<le> 1)
      then Inl (ValueError ''tax_rate debe estar entre 0 y 1'')
      else
        (let months = years * 12;
             net_final = net_final_with_monthly current_total years annual_return
                           extra_savings tax_rate
         in case net_final 0 of
              Inl e \<Rightarrow> Inl e
            | Inr net0 \<Rightarrow>
                if net0 \<ge> objetivo_final then Inr 0
                else
                  (let low = 0;
                       high = max (objetivo_final / of_int (max months 1) * 2) 5000
                   in case bisect_loop net_final objetivo_final 40 (low, high) of
                        Inl e \<Rightarrow> Inl e
                      | Inr (low', high') \<Rightarrow> Inr (py_round high'))))"

text \<open>The closure \<^verbatim>\<open>net_final_con_final_monthly\<close> of the growing plan.\<close>

definition net_final_con_final_monthly :: "real \<Rightarrow> int \<Rightarrow> real \<Rightarrow> real \<Rightarrow> real \<Rightarrow> real \<Rightarrow> real \<Rightarrow> error + real" where
  "net_final_con_final_monthly current_total years annual_return initial_monthly extra_savings
       tax_rate final_monthly =
     (let months_total = years * 12
      in case simulate_dca_ramp initial_monthly final_monthly years annual_return
                (current_total + extra_savings) of
           Inl e \<Rightarrow> Inl e
         | Inr (val, monthly_values) \<Rightarrow>
             (let contrib_total = of_int months_total * (initial_monthly + final_monthly) / 2;
                  principal_total = current_total + extra_savings + contrib_total;
                  gain = max 0 (val - principal_total);
                  tax = tax_rate * gain;
                  net_final = val - tax
              in Inr net_final))"

record year_summary =
  year :: int
  start :: int
  end_month :: int
  avg :: int

text \<open>One entry of \<^verbatim>\<open>resumen_anual\<close> (source lines 283 to 299).\<close>

definition summary_entry :: "real \<Rightarrow> int \<Rightarrow> int \<Rightarrow> int \<Rightarrow> year_summary" where
  "summary_entry initial_monthly final_monthly_aprox months_total anio =
     (let start_idx = (anio - 1) * 12;
          end_idx0 = anio * 12 - 1;
          end_idx = (if end_idx0 \<ge> months_total then months_total - 1 else end_idx0);
          start_month =
            (if months_total > 1
             then py_round (initial_monthly
                    + (of_int final_monthly_aprox - initial_monthly)
                      * (of_int start_idx / of_int (months_total - 1)))
             else final_monthly_aprox);
          end_m =
            (if months_total > 1
             then py_round (initial_monthly
                    + (of_int final_monthly_aprox - initial_monthly)
                      * (of_int end_idx / of_int (months_total - 1)))
             else final_monthly_aprox);
          avg_month = py_round (of_int (start_month + end_m) / 2)
      in \<lparr>year = anio, start = start_month, end_month = end_m, avg = avg_month\<rparr>)"

definition required_growing_monthlies_for_goal :: "real \<Rightarrow> real \<Rightarrow> int \<Rightarrow> real \<Rightarrow> real \<Rightarrow> real \<Rightarrow> real \<Rightarrow> error + int \<times> year_summary list" where
  "required_growing_monthlies_for_goal current_total objetivo_final years annual_return
       initial_monthly extra_savings tax_rate =
     (if years \<le> 0 then Inl (ValueError ''years debe ser > 0'')
      else if annual_return < 0 then Inl (ValueError ''annual_return no puede ser negativo'')
      else if \<not> (0 \<le> tax_rate \<and> tax_rate \<le> 1)
      then Inl (ValueError ''tax_rate debe estar entre 0 y 1'')
      else
        (let months_total = years * 12;
             net_final = net_final_con_final_monthly current_total years annual_return
                           initial_monthly extra_savings tax_rate;
             low = 0;
             high = max (initial_monthly * 10) 5000
         in case bisect_loop net_final objetivo_final 30 (low, high) of
              Inl e \<Rightarrow> Inl e
            | Inr (low', high') \<Rightarrow>
                (let final_monthly_aprox = py_round ((low' + high') / 2)
                 in Inr (final_monthly_aprox,
                         map (summary_entry initial_monthly final_monthly_aprox months_total)
                           [1 .. years]))))"

section \<open>Facts about binary64 rounding\<close>

text \<open>
  The exponent computed by \<open>binexp\<close> is the one that brackets its argument between two
  powers of 2, and it is the only such integer.
\<close>

lemma pow2_pos: "0 < pow2 e"
  by (simp add: pow2_def)

lemma pow2_powr: "pow2 e = 2 powr (of_int e)"
proof (cases "0 \<le> e")
  case True
  then have "(2::real) powr (of_int e) = 2 powr (real (nat e))" by simp
  also have "\<dots> = 2 ^ nat e" by (simp add: powr_realpow)
  finally show ?thesis using True by (simp add: pow2_def)
next
  case False
  then have "(2::real) powr (of_int e) = 2 powr (- real (nat (- e)))" by simp
  also have "\<dots> = 1 / 2 ^ nat (- e)" by (simp add: powr_minus powr_realpow inverse_eq_divide)
  finally show ?thesis using False by (simp add: pow2_def)
qed

lemma pow2_mono: "a \<le> b \<Longrightarrow> pow2 a \<le> pow2 b"
  by (simp add: pow2_powr)

lemma binexp_bounds:
  assumes "0 < x"
  shows "pow2 (binexp x) \<le> x \<and> x < pow2 (binexp x + 1)"
proof (cases "1 \<le> x")
  case True
  define n where "n = nat \<lfloor>x\<rfloor>"
  define k where "k = floorlog 2 n"
  from True have n1: "1 \<le> n" by (simp add: n_def le_nat_floor)
  then have npos: "0 < n" by simp
  from floorlog_bounds [of n 2] npos have lo: "2 ^ (k - 1) \<le> n" and hi: "n < 2 ^ k"
    by (simp_all add: k_def)
  from npos have kpos: "1 \<le> k" by (simp add: k_def floorlog_def)
  have be: "binexp x = int k - 1" using True by (simp add: binexp_def n_def k_def)
  have nx: "real n \<le> x" using True by (simp add: n_def)
  have xn: "x < real n + 1" using True by (simp add: n_def; linarith)
  have p1: "pow2 (int k - 1) = 2 ^ (k - 1)"
    using kpos by (simp add: pow2_def nat_diff_distrib)
  have p2: "pow2 (int k - 1 + 1) = 2 ^ k" by (simp add: pow2_def)
  from lo have lr: "(2::real) ^ (k - 1) \<le> real n"
    by simp
  have a: "pow2 (binexp x) \<le> x"
    unfolding be p1 by (rule order_trans [OF lr nx])
  from hi have "n + 1 \<le> 2 ^ k" by simp
  then have "real (n + 1) \<le> real (2 ^ k)"
    by (simp only: of_nat_le_iff)
  then have hr: "real n + 1 \<le> 2 ^ k"
    by simp
  have b: "x < pow2 (binexp x + 1)"
    unfolding be p2 using xn hr by linarith
  from a b show ?thesis by blast
next
  case False
  then have x1: "x < 1" by simp
  define y where "y = 1 / x"
  from assms x1 have y1: "1 < y" by (simp add: y_def)
  define m where "m = nat (\<lceil>y\<rceil> - 1)"
  define k where "k = floorlog 2 m"
  from y1 have c2: "2 \<le> \<lceil>y\<rceil>" by linarith
  then have mpos: "0 < m" by (simp add: m_def)
  from floorlog_bounds [of m 2] mpos have lo: "2 ^ (k - 1) \<le> m" and hi: "m < 2 ^ k"
    by (simp_all add: k_def)
  from mpos have kpos: "1 \<le> k" by (simp add: k_def floorlog_def)
  have be: "binexp x = - int k" using False by (simp add: binexp_def m_def k_def y_def)
  have my: "real m < y" using c2 by (simp add: m_def; linarith)
  have ym: "y \<le> real m + 1" using c2 by (simp add: m_def; linarith)
  from hi have "m + 1 \<le> 2 ^ k" by simp
  then have "real (m + 1) \<le> real (2 ^ k)"
    by (simp only: of_nat_le_iff)
  then have "real m + 1 \<le> 2 ^ k"
    by simp
  with ym have yk: "y \<le> 2 ^ k" by linarith
  from lo have "(2::real) ^ (k - 1) \<le> real m"
    by simp
  with my have ky: "2 ^ (k - 1) < y" by linarith
  have p1: "pow2 (- int k) = 1 / 2 ^ k" using kpos by (simp add: pow2_def)
  have p2: "pow2 (- int k + 1) = 1 / 2 ^ (k - 1)"
    using kpos by (cases "k = 1") (simp_all add: pow2_def nat_diff_distrib)
  have xy: "x = 1 / y" using assms by (simp add: y_def)
  have ypos: "0 < y" using y1 by simp
  have a1: "1 / 2 ^ k \<le> 1 / y"
    using yk ypos by (intro divide_left_mono) simp_all
  have b1: "1 / y < 1 / 2 ^ (k - 1)"
    using ky ypos by (intro divide_strict_left_mono) simp_all
  have a: "pow2 (binexp x) \<le> x"
  proof -
    have "pow2 (binexp x) = 1 / 2 ^ k" by (simp only: be p1)
    with a1 xy show ?thesis by simp
  qed
  have b: "x < pow2 (binexp x + 1)"
  proof -
    have "pow2 (binexp x + 1) = 1 / 2 ^ (k - 1)" by (simp only: be p2)
    with b1 xy show ?thesis by simp
  qed
  from a b show ?thesis by blast
qed

lemma binexp_unique:
  assumes "0 < x" and "pow2 e \<le> x" and "x < pow2 (e + 1)"
  shows "binexp x = e"
proof (rule ccontr)
  assume ne: "binexp x \<noteq> e"
  from binexp_bounds [OF assms(1)] have lo: "pow2 (binexp x) \<le> x"
    and hi: "x < pow2 (binexp x + 1)" by simp_all
  show False
  proof (cases "binexp x < e")
    case True
    then have "pow2 (binexp x + 1) \<le> pow2 e" by (intro pow2_mono) simp
    with hi assms(2) show False by simp
  next
    case False
    with ne have "e + 1 \<le> binexp x" by simp
    then have "pow2 (e + 1) \<le> pow2 (binexp x)" by (rule pow2_mono)
    with lo assms(3) show False by simp
  qed
qed

text \<open>
  Rounding with the exponent given: the nearest multiple of \<open>2\<^sup>e\<^sup>-\<^sup>5\<^sup>2\<close>, or an infinity.
\<close>

lemma fl64_eval:
  assumes "x \<noteq> 0" and "pow2 e \<le> \<bar>x\<bar>" and "\<bar>x\<bar> < pow2 (e + 1)" and "- 1022 \<le> e"
    and "py_round (x / pow2 (e - 52)) = q"
    and "\<bar>of_int q * pow2 (e - 52)\<bar> < 2 ^ 1024"
  shows "fl64 x = Fin (of_int q * pow2 (e - 52))"
proof -
  from assms(1) have "0 < \<bar>x\<bar>" by simp
  from binexp_unique [OF this assms(2) assms(3)] have be: "binexp \<bar>x\<bar> = e" .
  from assms(4) have mx: "max e (- 1022) = e" by simp
  show ?thesis
    unfolding fl64_def be mx Let_def assms(5) using assms(1) assms(6) by simp
qed

lemma fl64_overflow:
  assumes "0 < x" and "pow2 e \<le> x" and "x < pow2 (e + 1)" and "- 1022 \<le> e"
    and "py_round (x / pow2 (e - 52)) = q"
    and "2 ^ 1024 \<le> \<bar>of_int q * pow2 (e - 52)\<bar>"
  shows "fl64 x = PInf"
proof -
  from assms(1) have ax: "\<bar>x\<bar> = x" by simp
  from binexp_unique [OF assms(1) assms(2) assms(3)] have be: "binexp x = e" .
  from assms(4) have mx: "max e (- 1022) = e" by simp
  show ?thesis
    unfolding fl64_def ax be mx Let_def assms(5) using assms(1) assms(6) by simp
qed

lemma fl64_zero: "fl64 0 = Fin 0"
  by (simp add: fl64_def)

text \<open>The doubles that the evaluations below meet, each rounded from its exact argument.\<close>

lemma fl64_v0: "fl64 (- 300) = Fin (- 300)"
  using fl64_eval [of "- 300" "8" "- 5277655813324800"]
  by (simp add: pow2_def py_round_def Let_def)

lemma fl64_v1: "fl64 (- 2) = Fin (- 2)"
  using fl64_eval [of "- 2" "1" "- 4503599627370496"]
  by (simp add: pow2_def py_round_def Let_def)

lemma fl64_v2: "fl64 (- (1 / 2)) = Fin (- (1 / 2))"
  using fl64_eval [of "- (1 / 2)" "- 1" "- 4503599627370496"]
  by (simp add: pow2_def py_round_def Let_def)

lemma fl64_v3: "fl64 (- (219902325555 / 8796093022208)) = Fin (- (219902325555 / 8796093022208))"
  using fl64_eval [of "- (219902325555 / 8796093022208)" "- 6" "- 7205759403786240"]
  by (simp add: pow2_def py_round_def Let_def)

lemma fl64_v4: "fl64 (1 / 50) = Fin (5764607523034235 / 288230376151711744)"
  using fl64_eval [of "1 / 50" "- 6" "5764607523034235"]
  by (simp add: pow2_def py_round_def Let_def)

lemma fl64_v5: "fl64 (1 / 22) = Fin (3275345183542179 / 72057594037927936)"
  using fl64_eval [of "1 / 22" "- 5" "6550690367084358"]
  by (simp add: pow2_def py_round_def Let_def)

lemma fl64_v6: "fl64 (3275345183542179 / 72057594037927936) = Fin (3275345183542179 / 72057594037927936)"
  using fl64_eval [of "3275345183542179 / 72057594037927936" "- 5" "6550690367084358"]
  by (simp add: pow2_def py_round_def Let_def)

lemma fl64_v7: "fl64 (1 / 10) = Fin (3602879701896397 / 36028797018963968)"
  using fl64_eval [of "1 / 10" "- 4" "7205759403792794"]
  by (simp add: pow2_def py_round_def Let_def)

lemma fl64_v8: "fl64 (1 / 5) = Fin (3602879701896397 / 18014398509481984)"
  using fl64_eval [of "1 / 5" "- 3" "7205759403792794"]
  by (simp add: pow2_def py_round_def Let_def)

lemma fl64_v9: "fl64 (1 / 4) = Fin (1 / 4)"
  using fl64_eval [of "1 / 4" "- 2" "4503599627370496"]
  by (simp add: pow2_def py_round_def Let_def)

lemma fl64_v10: "fl64 (3 / 11) = Fin (1228254443828317 / 4503599627370496)"
  using fl64_eval [of "3 / 11" "- 2" "4913017775313268"]
  by (simp add: pow2_def py_round_def Let_def)

lemma fl64_v11: "fl64 (199 / 400) = Fin (8962163258467287 / 18014398509481984)"
  using fl64_eval [of "199 / 400" "- 2" "8962163258467287"]
  by (simp add: pow2_def py_round_def Let_def)

lemma fl64_v12: "fl64 (10808639105689191 / 18014398509481984) = Fin (1351079888211149 / 2251799813685248)"
  using fl64_eval [of "10808639105689191 / 18014398509481984" "- 1" "5404319552844596"]
  by (simp add: pow2_def py_round_def Let_def)

lemma fl64_v13: "fl64 (1351079888211149 / 2251799813685248) = Fin (1351079888211149 / 2251799813685248)"
  using fl64_eval [of "1351079888211149 / 2251799813685248" "- 1" "5404319552844596"]
  by (simp add: pow2_def py_round_def Let_def)

lemma fl64_v14: "fl64 (5 / 8) = Fin (5 / 8)"
  using fl64_eval [of "5 / 8" "- 1" "5629499534213120"]
  by (simp add: pow2_def py_round_def Let_def)

lemma fl64_v15: "fl64 (15 / 22) = Fin (6141272219141585 / 9007199254740992)"
  using fl64_eval [of "15 / 22" "- 1" "6141272219141585"]
  by (simp add: pow2_def py_round_def Let_def)

lemma fl64_v16: "fl64 (52405522936674859 / 72057594037927936) = Fin (6550690367084357 / 9007199254740992)"
  using fl64_eval [of "52405522936674859 / 72057594037927936" "- 1" "6550690367084357"]
  by (simp add: pow2_def py_round_def Let_def)

lemma fl64_v17: "fl64 (3 / 4) = Fin (3 / 4)"
  using fl64_eval [of "3 / 4" "- 1" "6755399441055744"]
  by (simp add: pow2_def py_round_def Let_def)

lemma fl64_v18: "fl64 (9 / 10) = Fin (8106479329266893 / 9007199254740992)"
  using fl64_eval [of "9 / 10" "- 1" "8106479329266893"]
  by (simp add: pow2_def py_round_def Let_def)

lemma fl64_v19: "fl64 (9007199254740991 / 9007199254740992) = Fin (9007199254740991 / 9007199254740992)"
  using fl64_eval [of "9007199254740991 / 9007199254740992" "- 1" "9007199254740991"]
  by (simp add: pow2_def py_round_def Let_def)

lemma fl64_v20: "fl64 (1) = Fin (1)"
  using fl64_eval [of "1" "0" "4503599627370496"]
  by (simp add: pow2_def py_round_def Let_def)

lemma fl64_v21: "fl64 (1351079888211149 / 1125899906842624) = Fin (1351079888211149 / 1125899906842624)"
  using fl64_eval [of "1351079888211149 / 1125899906842624" "0" "5404319552844596"]
  by (simp add: pow2_def py_round_def Let_def)

lemma fl64_v22: "fl64 (4053239664633447 / 2251799813685248) = Fin (4053239664633447 / 2251799813685248)"
  using fl64_eval [of "4053239664633447 / 2251799813685248" "0" "8106479329266894"]
  by (simp add: pow2_def py_round_def Let_def)

lemma fl64_v23: "fl64 (15 / 8) = Fin (15 / 8)"
  using fl64_eval [of "15 / 8" "0" "8444249301319680"]
  by (simp add: pow2_def py_round_def Let_def)

lemma fl64_v24: "fl64 (1351079888211149 / 562949953421312) = Fin (1351079888211149 / 562949953421312)"
  using fl64_eval [of "1351079888211149 / 562949953421312" "1" "5404319552844596"]
  by (simp add: pow2_def py_round_def Let_def)

lemma fl64_v25: "fl64 (5 / 2) = Fin (5 / 2)"
  using fl64_eval [of "5 / 2" "1" "5629499534213120"]
  by (simp add: pow2_def py_round_def Let_def)

lemma fl64_v26: "fl64 (3) = Fin (3)"
  using fl64_eval [of "3" "1" "6755399441055744"]
  by (simp add: pow2_def py_round_def Let_def)

lemma fl64_v27: "fl64 (6755399441055745 / 2251799813685248) = Fin (6755399441055745 / 2251799813685248)"
  using fl64_eval [of "6755399441055745 / 2251799813685248" "1" "6755399441055745"]
  by (simp add: pow2_def py_round_def Let_def)

lemma fl64_v28: "fl64 (2800676018271027 / 562949953421312) = Fin (2800676018271027 / 562949953421312)"
  using fl64_eval [of "2800676018271027 / 562949953421312" "2" "5601352036542054"]
  by (simp add: pow2_def py_round_def Let_def)

lemma fl64_v29: "fl64 (44810816292336435 / 9007199254740992) = Fin (2800676018271027 / 562949953421312)"
  using fl64_eval [of "44810816292336435 / 9007199254740992" "2" "5601352036542054"]
  by (simp add: pow2_def py_round_def Let_def)

lemma fl64_v30: "fl64 (199 / 40) = Fin (2800676018271027 / 562949953421312)"
  using fl64_eval [of "199 / 40" "2" "5601352036542054"]
  by (simp add: pow2_def py_round_def Let_def)

lemma fl64_v31: "fl64 (5) = Fin (5)"
  using fl64_eval [of "5" "2" "5629499534213120"]
  by (simp add: pow2_def py_round_def Let_def)

lemma fl64_v32: "fl64 (2800676018271027 / 281474976710656) = Fin (2800676018271027 / 281474976710656)"
  using fl64_eval [of "2800676018271027 / 281474976710656" "3" "5601352036542054"]
  by (simp add: pow2_def py_round_def Let_def)

lemma fl64_v33: "fl64 (199 / 20) = Fin (2800676018271027 / 281474976710656)"
  using fl64_eval [of "199 / 20" "3" "5601352036542054"]
  by (simp add: pow2_def py_round_def Let_def)

lemma fl64_v34: "fl64 (16) = Fin (16)"
  using fl64_eval [of "16" "4" "4503599627370496"]
  by (simp add: pow2_def py_round_def Let_def)

lemma fl64_v35: "fl64 (22) = Fin (22)"
  using fl64_eval [of "22" "4" "6192449487634432"]
  by (simp add: pow2_def py_round_def Let_def)

lemma fl64_v36: "fl64 (50) = Fin (50)"
  using fl64_eval [of "50" "5" "7036874417766400"]
  by (simp add: pow2_def py_round_def Let_def)

lemma fl64_v37: "fl64 (100) = Fin (100)"
  using fl64_eval [of "100" "6" "7036874417766400"]
  by (simp add: pow2_def py_round_def Let_def)

lemma fl64_v38: "fl64 (150) = Fin (150)"
  using fl64_eval [of "150" "7" "5277655813324800"]
  by (simp add: pow2_def py_round_def Let_def)

lemma fl64_v39: "fl64 (200) = Fin (200)"
  using fl64_eval [of "200" "7" "7036874417766400"]
  by (simp add: pow2_def py_round_def Let_def)

lemma fl64_v40: "fl64 (500) = Fin (500)"
  using fl64_eval [of "500" "8" "8796093022208000"]
  by (simp add: pow2_def py_round_def Let_def)

lemma fl64_v41: "fl64 (600) = Fin (600)"
  using fl64_eval [of "600" "9" "5277655813324800"]
  by (simp add: pow2_def py_round_def Let_def)

lemma fl64_v42: "fl64 (900) = Fin (900)"
  using fl64_eval [of "900" "9" "7916483719987200"]
  by (simp add: pow2_def py_round_def Let_def)

lemma fl64_v43: "fl64 (9006974074759623435 / 9007199254740992) = Fin (8795873119882445 / 8796093022208)"
  using fl64_eval [of "9006974074759623435 / 9007199254740992" "9" "8795873119882445"]
  by (simp add: pow2_def py_round_def Let_def)

lemma fl64_v44: "fl64 (1000) = Fin (1000)"
  using fl64_eval [of "1000" "9" "8796093022208000"]
  by (simp add: pow2_def py_round_def Let_def)

lemma fl64_v45: "fl64 (1200) = Fin (1200)"
  using fl64_eval [of "1200" "10" "5277655813324800"]
  by (simp add: pow2_def py_round_def Let_def)

lemma fl64_v46: "fl64 (2000) = Fin (2000)"
  using fl64_eval [of "2000" "10" "8796093022208000"]
  by (simp add: pow2_def py_round_def Let_def)

lemma fl64_v47: "fl64 (2010) = Fin (2010)"
  using fl64_eval [of "2010" "10" "8840073487319040"]
  by (simp add: pow2_def py_round_def Let_def)

lemma fl64_v48: "fl64 (100000000000000000000000000000000000000000000000000000000000000000000000000000000000000000000000000000000000000000000000000000000000000000000000000000000000000000000000000000000000000000000000000000000000000000000000000000000000000000000000000000000000000000000000000000000000000000000000000000000000000000000) = Fin (100000000000000001097906362944045541740492309677311846336810682903157585404911491537163328978494688899061249669721172515611590283743140088328307009198146046031271664502933027185697489699588559043338384466165001178426897626212945177628091195786707458122783970171784415105291802893207873272974885715430223118336)"
  using fl64_eval [of "100000000000000000000000000000000000000000000000000000000000000000000000000000000000000000000000000000000000000000000000000000000000000000000000000000000000000000000000000000000000000000000000000000000000000000000000000000000000000000000000000000000000000000000000000000000000000000000000000000000000000000000" "1023" "5010420900022432"]
  by (simp add: pow2_def py_round_def Let_def)

lemma fl64_v49: "fl64 (100000000000000001097906362944045541740492309677311846336810682903157585404911491537163328978494688899061249669721172515611590283743140088328307009198146046031271664502933027185697489699588559043338384466165001178426897626212945177628091195786707458122783970171784415105291802893207873272974885715430223118336) = Fin (100000000000000001097906362944045541740492309677311846336810682903157585404911491537163328978494688899061249669721172515611590283743140088328307009198146046031271664502933027185697489699588559043338384466165001178426897626212945177628091195786707458122783970171784415105291802893207873272974885715430223118336)"
  using fl64_eval [of "100000000000000001097906362944045541740492309677311846336810682903157585404911491537163328978494688899061249669721172515611590283743140088328307009198146046031271664502933027185697489699588559043338384466165001178426897626212945177628091195786707458122783970171784415105291802893207873272974885715430223118336" "1023" "5010420900022432"]
  by (simp add: pow2_def py_round_def Let_def)

lemma fl64_v50: "fl64 (200000000000000002195812725888091083480984619354623692673621365806315170809822983074326657956989377798122499339442345031223180567486280176656614018396292092062543329005866054371394979399177118086676768932330002356853795252425890355256182391573414916245567940343568830210583605786415746545949771430860446236672) = PInf"
  using fl64_overflow [of "200000000000000002195812725888091083480984619354623692673621365806315170809822983074326657956989377798122499339442345031223180567486280176656614018396292092062543329005866054371394979399177118086676768932330002356853795252425890355256182391573414916245567940343568830210583605786415746545949771430860446236672" "1024" "5010420900022432"]
  by (simp add: pow2_def py_round_def Let_def)

lemmas fl64_values = fl64_v0 fl64_v1 fl64_v2 fl64_v3 fl64_v4 fl64_v5 fl64_v6 fl64_v7 fl64_v8 fl64_v9 fl64_v10 fl64_v11 fl64_v12 fl64_v13 fl64_v14 fl64_v15 fl64_v16 fl64_v17 fl64_v18 fl64_v19 fl64_v20 fl64_v21 fl64_v22 fl64_v23 fl64_v24 fl64_v25 fl64_v26 fl64_v27 fl64_v28 fl64_v29 fl64_v30 fl64_v31 fl64_v32 fl64_v33 fl64_v34 fl64_v35 fl64_v36 fl64_v37 fl64_v38 fl64_v39 fl64_v40 fl64_v41 fl64_v42 fl64_v43 fl64_v44 fl64_v45 fl64_v46 fl64_v47 fl64_v48 fl64_v49 fl64_v50

lemmas plan_eval =
  compute_contribution_plan_def keys_def dict_values_def total_value_def current_weights_def
  getitem_def get_default_def needed_for_def shares_def settle_diff_def plan_sum_def
  fsub_def fgt_def feq_def py_max_def py_sum_def signed_inf_def int_to_float_def
  py_round_def Let_def fl64_zero fl64_values

section \<open>Facts about the allocator\<close>

lemma needed_for_threshold:
  "needed_for th cw ta a tw cv = needed_for (Fin 0) cw ta a tw cv"
  by (simp add: needed_for_def Let_def fgt_def)

lemma needed_loop_threshold:
  "needed_loop hs cw ta th ts = needed_loop hs cw ta (Fin 0) ts"
proof (induction ts)
  case Nil
  show ?case by simp
next
  case (Cons x ts)
  obtain a tw where x: "x = (a, tw)" by (cases x)
  show ?case
    unfolding x needed_loop.simps Cons.IH needed_for_threshold [of th] ..
qed


lemma getitem_in_keys: "k \<in> set (keys d) \<Longrightarrow> \<exists>v. getitem d k = Inr v"
  by (cases "map_of d k") (auto simp: getitem_def keys_def map_of_eq_None_iff)

lemma needed_loop_ok:
  "set (keys ts) \<subseteq> set (keys hs) \<Longrightarrow>
   \<exists>nr. needed_loop hs cw ta th ts = Inr nr \<and> keys nr = keys ts"
proof (induction ts)
  case Nil
  show ?case by (simp add: keys_def)
next
  case (Cons x ts)
  obtain a tw where x: "x = (a, tw)" by (cases x)
  from Cons.prems have "a \<in> set (keys hs)" and sub: "set (keys ts) \<subseteq> set (keys hs)"
    by (auto simp: keys_def x)
  then obtain cv where cv: "getitem hs a = Inr cv"
    using getitem_in_keys by blast
  from Cons.IH [OF sub] obtain nr where
    nr: "needed_loop hs cw ta th ts = Inr nr" "keys nr = keys ts" by blast
  show ?case using cv nr by (simp add: x keys_def)
qed

lemma proportional_plan_ok:
  "set ks \<subseteq> set (keys ts) \<Longrightarrow>
   \<exists>pl. proportional_plan ts mc ks = Inr pl \<and> keys pl = ks"
proof (induction ks)
  case Nil
  show ?case by (simp add: keys_def)
next
  case (Cons a ks)
  from Cons.prems have "a \<in> set (keys ts)" and sub: "set ks \<subseteq> set (keys ts)" by auto
  then obtain tw where tw: "getitem ts a = Inr tw"
    using getitem_in_keys by blast
  from Cons.IH [OF sub] obtain pl where
    pl: "proportional_plan ts mc ks = Inr pl" "keys pl = ks" by blast
  show ?case using tw pl by (simp add: keys_def)
qed

lemma max_scan_in: "max_scan (bk, bv) rest \<in> insert bk (set (keys rest))"
proof (induction rest arbitrary: bk bv)
  case Nil
  show ?case by simp
next
  case (Cons x rest)
  obtain k v where x: "x = (k, v)" by (cases x)
  show ?case
    using Cons.IH [of k v] Cons.IH [of bk bv] by (auto simp: x keys_def)
qed

lemma max_key_ok: "cs \<noteq> [] \<Longrightarrow> \<exists>k. max_key cs = Inr k \<and> k \<in> set (keys cs)"
proof (cases cs)
  case Nil
  assume "cs \<noteq> []"
  with Nil show ?thesis by simp
next
  case (Cons x rest)
  obtain k v where x: "x = (k, v)" by (cases x)
  show ?thesis using max_scan_in [of k v rest] by (auto simp: Cons x keys_def)
qed

lemma round_float_cases:
  "(\<exists>n. round_float x = Inr n)
   \<or> round_float x = Inl (ValueError ''cannot convert float NaN to integer'')
   \<or> round_float x = Inl (OverflowError ''cannot convert float infinity to integer'')"
  by (cases x) simp_all

lemma round_all_cases:
  "(\<exists>r. round_all cs = Inr r \<and> (cs \<noteq> [] \<longrightarrow> r \<noteq> []))
   \<or> round_all cs = Inl (ValueError ''cannot convert float NaN to integer'')
   \<or> round_all cs = Inl (OverflowError ''cannot convert float infinity to integer'')"
proof (induction cs)
  case Nil
  show ?case by simp
next
  case (Cons x cs)
  obtain a v where x: "x = (a, v)" by (cases x)
  from round_float_cases [of v] Cons.IH show ?case
    by (auto simp: x)
qed

lemma int_to_float_cases:
  "(\<exists>x. int_to_float n = Inr x)
   \<or> int_to_float n = Inl (OverflowError ''int too large to convert to float'')"
  by (cases "fl64 (of_int n)") (simp_all add: int_to_float_def)

lemma settle_diff_cases:
  assumes "cs \<noteq> []"
  shows "(\<exists>r. settle_diff mc cs = Inr r)
   \<or> settle_diff mc cs = Inl (ValueError ''cannot convert float NaN to integer'')
   \<or> settle_diff mc cs = Inl (OverflowError ''cannot convert float infinity to integer'')
   \<or> settle_diff mc cs = Inl (OverflowError ''int too large to convert to float'')"
proof -
  from max_key_ok [OF assms] obtain k where k: "max_key cs = Inr k" "k \<in> set (keys cs)"
    by blast
  from getitem_in_keys [OF k(2)] obtain old where old: "getitem cs k = Inr old" by blast
  from int_to_float_cases [of "sum_list (dict_values cs)"] show ?thesis
  proof
    assume "\<exists>x. int_to_float (sum_list (dict_values cs)) = Inr x"
    then obtain s where s: "int_to_float (sum_list (dict_values cs)) = Inr s" by blast
    from round_float_cases [of "fsub mc s"] show ?thesis
    proof (elim disjE exE)
      fix n
      assume "round_float (fsub mc s) = Inr n"
      with s k(1) old show ?thesis by (simp add: settle_diff_def)
    next
      assume "round_float (fsub mc s)
              = Inl (ValueError ''cannot convert float NaN to integer'')"
      with s show ?thesis by (simp add: settle_diff_def)
    next
      assume "round_float (fsub mc s)
              = Inl (OverflowError ''cannot convert float infinity to integer'')"
      with s show ?thesis by (simp add: settle_diff_def)
    qed
  next
    assume "int_to_float (sum_list (dict_values cs))
            = Inl (OverflowError ''int too large to convert to float'')"
    then show ?thesis by (simp add: settle_diff_def)
  qed
qed

lemma plan_returns_or_conversion_error:
  assumes "set (keys (holdings p)) = set (keys (targets p))"
  shows "(\<exists>plan. compute_contribution_plan p mc th = Inr plan)
   \<or> compute_contribution_plan p mc th
       = Inl (ValueError ''cannot convert float NaN to integer'')
   \<or> compute_contribution_plan p mc th
       = Inl (OverflowError ''cannot convert float infinity to integer'')
   \<or> compute_contribution_plan p mc th
       = Inl (OverflowError ''int too large to convert to float'')"
proof -
  let ?ta = "fadd (total_value p) mc"
  from assms have "set (keys (targets p)) \<subseteq> set (keys (holdings p))" by simp
  from needed_loop_ok [OF this] obtain nr where
    nr: "needed_loop (holdings p) (current_weights p) ?ta th (targets p) = Inr nr"
    and nk: "keys nr = keys (targets p)" by blast
  let ?tn = "py_sum (dict_values nr)"
  show ?thesis
  proof (cases "feq ?tn (Fin 0)")
    case True
    from assms have "set (keys (holdings p)) \<subseteq> set (keys (targets p))" by simp
    from proportional_plan_ok [OF this] obtain pl where
      "proportional_plan (targets p) mc (keys (holdings p)) = Inr pl" by blast
    with assms nr True show ?thesis
      by (simp add: compute_contribution_plan_def Let_def)
  next
    case False
    then have "nr \<noteq> []" by (auto simp: dict_values_def py_sum_def feq_def)
    then have ne: "shares nr ?tn mc \<noteq> []" by (simp add: shares_def)
    from round_all_cases [of "shares nr ?tn mc"] show ?thesis
    proof (elim disjE exE conjE)
      fix r
      assume r: "round_all (shares nr ?tn mc) = Inr r"
        and "shares nr ?tn mc \<noteq> [] \<longrightarrow> r \<noteq> []"
      with ne have "r \<noteq> []" by simp
      from settle_diff_cases [OF this, of mc] show ?thesis
      proof (elim disjE exE)
        fix c
        assume "settle_diff mc r = Inr c"
        with assms nr False r show ?thesis
          by (simp add: compute_contribution_plan_def Let_def)
      next
        assume "settle_diff mc r = Inl (ValueError ''cannot convert float NaN to integer'')"
        with assms nr False r show ?thesis
          by (simp add: compute_contribution_plan_def Let_def)
      next
        assume "settle_diff mc r
                = Inl (OverflowError ''cannot convert float infinity to integer'')"
        with assms nr False r show ?thesis
          by (simp add: compute_contribution_plan_def Let_def)
      next
        assume "settle_diff mc r
                = Inl (OverflowError ''int too large to convert to float'')"
        with assms nr False r show ?thesis
          by (simp add: compute_contribution_plan_def Let_def)
      qed
    next
      assume "round_all (shares nr ?tn mc)
              = Inl (ValueError ''cannot convert float NaN to integer'')"
      with assms nr False show ?thesis
        by (simp add: compute_contribution_plan_def Let_def)
    next
      assume "round_all (shares nr ?tn mc)
              = Inl (OverflowError ''cannot convert float infinity to integer'')"
      with assms nr False show ?thesis
        by (simp add: compute_contribution_plan_def Let_def)
    qed
  qed
qed

section \<open>Facts about the simulators and the solvers\<close>

lemma constant_loop_length:
  "length (snd (constant_loop mc r n (v, mv))) = length mv + n"
  by (induction n arbitrary: v mv) (auto simp: Let_def)

lemma ramp_loop_length:
  "length (snd (ramp_loop im fm months r ms (v, mv))) = length mv + length ms"
  by (induction ms arbitrary: v mv) (auto simp: Let_def)

lemma ramp_contrib_const: "ramp_contrib C C months m = C"
  by (simp add: ramp_contrib_def)

lemma ramp_loop_const:
  "ramp_loop C C months r ms st = constant_loop C r (length ms) st"
proof (induction ms arbitrary: st)
  case Nil
  show ?case by simp
next
  case (Cons m ms)
  obtain v mv where st: "st = (v, mv)" by (cases st)
  show ?case by (simp add: st ramp_contrib_const Let_def Cons.IH)
qed

lemma constant_loop_mono:
  "0 \<le> 1 + r \<Longrightarrow> c1 \<le> c2 \<Longrightarrow> v1 \<le> v2 \<Longrightarrow>
   fst (constant_loop c1 r n (v1, mv1)) \<le> fst (constant_loop c2 r n (v2, mv2))"
proof (induction n arbitrary: v1 v2 mv1 mv2)
  case 0
  then show ?case by simp
next
  case (Suc n)
  have "(v1 + c1) * (1 + r) \<le> (v2 + c2) * (1 + r)"
    using Suc.prems by (intro mult_right_mono) auto
  then show ?case
    using Suc.IH [OF Suc.prems(1) Suc.prems(2)] by (simp add: Let_def)
qed

lemma monthly_rate_growth: "0 \<le> 1 + monthly_rate annual_return"
  by (simp add: monthly_rate_def)

lemma monthly_rate_zero: "monthly_rate 0 = 0"
  by (simp add: monthly_rate_def)

lemma constant_loop_trace:
  "\<exists>tr. constant_loop mc r n (v, mv) = ((if n = 0 then v else last tr), mv @ tr)
        \<and> length tr = n
        \<and> (\<forall>i<n. tr ! i = ((if i = 0 then v else tr ! (i - 1)) + mc) * (1 + r))"
proof (induction n arbitrary: v mv)
  case 0
  show ?case by simp
next
  case (Suc n)
  define v2 where "v2 = (v + mc) * (1 + r)"
  from Suc.IH [of v2 "mv @ [v2]"] obtain tr where
    run: "constant_loop mc r n (v2, mv @ [v2]) = ((if n = 0 then v2 else last tr), (mv @ [v2]) @ tr)"
    and len: "length tr = n"
    and rec: "\<forall>i<n. tr ! i = ((if i = 0 then v2 else tr ! (i - 1)) + mc) * (1 + r)"
    by blast
  have a: "constant_loop mc r (Suc n) (v, mv) = ((if Suc n = 0 then v else last (v2 # tr)), mv @ (v2 # tr))"
    using run len by (auto simp: Let_def v2_def)
  have b: "length (v2 # tr) = Suc n" using len by simp
  have c: "\<forall>i<Suc n. (v2 # tr) ! i = ((if i = 0 then v else (v2 # tr) ! (i - 1)) + mc) * (1 + r)"
  proof (intro allI impI)
    fix i assume i: "i < Suc n"
    show "(v2 # tr) ! i = ((if i = 0 then v else (v2 # tr) ! (i - 1)) + mc) * (1 + r)"
    proof (cases i)
      case 0
      then show ?thesis by (simp add: v2_def)
    next
      case (Suc j)
      with i have "j < n" by simp
      with rec have "tr ! j = ((if j = 0 then v2 else tr ! (j - 1)) + mc) * (1 + r)" by blast
      then show ?thesis using Suc by (simp add: nth_Cons')
    qed
  qed
  from a b c show ?case by blast
qed

lemma ramp_loop_trace:
  "\<exists>tr. ramp_loop im fm months r ms (v, mv) = ((if ms = [] then v else last tr), mv @ tr)
        \<and> length tr = length ms
        \<and> (\<forall>i<length ms. tr ! i =
              ((if i = 0 then v else tr ! (i - 1)) + ramp_contrib im fm months (ms ! i)) * (1 + r))"
proof (induction ms arbitrary: v mv)
  case Nil
  show ?case by simp
next
  case (Cons m ms)
  define v2 where "v2 = (v + ramp_contrib im fm months m) * (1 + r)"
  from Cons.IH [of v2 "mv @ [v2]"] obtain tr where
    run: "ramp_loop im fm months r ms (v2, mv @ [v2]) = ((if ms = [] then v2 else last tr), (mv @ [v2]) @ tr)"
    and len: "length tr = length ms"
    and rec: "\<forall>i<length ms. tr ! i =
              ((if i = 0 then v2 else tr ! (i - 1)) + ramp_contrib im fm months (ms ! i)) * (1 + r)"
    by blast
  have a: "ramp_loop im fm months r (m # ms) (v, mv) = ((if m # ms = [] then v else last (v2 # tr)), mv @ (v2 # tr))"
    using run len by (auto simp: Let_def v2_def)
  have b: "length (v2 # tr) = length (m # ms)" using len by simp
  have c: "\<forall>i<length (m # ms). (v2 # tr) ! i =
      ((if i = 0 then v else (v2 # tr) ! (i - 1)) + ramp_contrib im fm months ((m # ms) ! i)) * (1 + r)"
  proof (intro allI impI)
    fix i assume i: "i < length (m # ms)"
    show "(v2 # tr) ! i =
      ((if i = 0 then v else (v2 # tr) ! (i - 1)) + ramp_contrib im fm months ((m # ms) ! i)) * (1 + r)"
    proof (cases i)
      case 0
      then show ?thesis by (simp add: v2_def)
    next
      case (Suc j)
      with i have "j < length ms" by simp
      with rec have "tr ! j = ((if j = 0 then v2 else tr ! (j - 1)) + ramp_contrib im fm months (ms ! j)) * (1 + r)" by blast
      then show ?thesis using Suc by (simp add: nth_Cons')
    qed
  qed
  from a b c show ?case by blast
qed

lemma simulate_constant_plan_ok:
  "0 < years \<Longrightarrow> \<exists>v tr. simulate_constant_plan ct mc years ar es = Inr (v, tr)"
  by (cases "constant_loop mc (monthly_rate ar) (nat (years * 12)) (ct + es, [])")
     (simp add: simulate_constant_plan_def Let_def)

lemma net_final_with_monthly_ok:
  "0 < years \<Longrightarrow> \<exists>y. net_final_with_monthly ct years ar es tr C = Inr y"
proof -
  assume y: "0 < years"
  let ?c = "if py_round C < 0 then 0 else py_round C"
  from simulate_constant_plan_ok [OF y, of ct "of_int ?c" ar es] obtain v t where
    "simulate_constant_plan ct (of_int ?c) years ar es = Inr (v, t)" by blast
  then show ?thesis by (simp add: net_final_with_monthly_def Let_def)
qed

lemma constant_loop_zero: "fst (constant_loop 0 r n (0, mv)) = 0"
  by (induction n arbitrary: mv) (simp_all add: Let_def)

lemma net_final_zero_plan:
  "net_final_with_monthly 0 1 ar 0 0 0 = Inr 0"
proof -
  obtain v t where vt: "constant_loop 0 (monthly_rate ar) 12 (0, []) = (v, t)"
    by (cases "constant_loop 0 (monthly_rate ar) 12 (0, [])")
  from constant_loop_zero [of "monthly_rate ar" 12 "[]"] vt have "v = 0" by simp
  with vt show ?thesis
    by (simp add: net_final_with_monthly_def simulate_constant_plan_def py_round_def Let_def)
qed

lemma goal_solvers_raise:
  assumes "years \<le> 0 \<or> ar < 0 \<or> tr < 0 \<or> 1 < tr"
  shows "(\<exists>msg. required_constant_monthly_for_goal ct obj years ar es tr = Inl (ValueError msg))
       \<and> (\<exists>msg. required_growing_monthlies_for_goal ct obj years ar im es tr
                  = Inl (ValueError msg))"
  using assms
  by (auto simp: required_constant_monthly_for_goal_def required_growing_monthlies_for_goal_def)

section \<open>The allocator\<close>

text \<open>
  Claim C3. The threshold parameter has no effect: for every portfolio, contribution and
  threshold, \<^verbatim>\<open>compute_contribution_plan\<close> returns what it returns with threshold 0, the
  same plan or the same error.
\<close>

theorem threshold_no_effect:
  "compute_contribution_plan p mc th = compute_contribution_plan p mc (Fin 0)"
  unfolding compute_contribution_plan_def needed_loop_threshold [of _ _ _ th] ..

theorem threshold_no_effect_witness:
  "compute_contribution_plan
     \<lparr>holdings = [(''A'', Fin 900), (''B'', Fin 100)],
      targets = [(''A'', Fin (1 / 2)), (''B'', Fin (1 / 2))],
      asset_types = None\<rparr> (Fin 200) (fl64 (1 / 50))
   = Inr [(''A'', IntAmount 0), (''B'', IntAmount 200)]"
  unfolding threshold_no_effect [of _ "Fin 200" "fl64 (1 / 50)"]
  by (simp add: plan_eval)

text \<open>
  Claim C1 (the plan consists of integer amounts whose sum is the rounded monthly
  contribution, on the early return too). What the code computes at two inputs. With
  holdings of 1000 and 1000, targets of 49.75 % each and a contribution of 10, nothing is
  needed, the early return is taken, and the plan is the unrounded floats 4.975 and
  4.975, which sum to 9.95 and not to 10. With empty holdings, targets 75 % and 25 % and a
  contribution of 2.5, the main path rounds 1.875 and 0.625 to 2 and 1; the residual
  \<^verbatim>\<open>round(2.5 - 3)\<close> is 0, so the plan sums to 3, while \<^verbatim>\<open>round(2.5)\<close> is 2.
\<close>

theorem plan_sum_divergence:
  "compute_contribution_plan
     \<lparr>holdings = [(''A'', Fin 1000), (''B'', Fin 1000)],
      targets = [(''A'', fl64 (199 / 400)), (''B'', fl64 (199 / 400))],
      asset_types = None\<rparr> (Fin 10) (Fin 0)
     = Inr [(''A'', FloatAmount (fl64 (199 / 40))), (''B'', FloatAmount (fl64 (199 / 40)))]
   \<and> plan_sum [(''A'', FloatAmount (fl64 (199 / 40))), (''B'', FloatAmount (fl64 (199 / 40)))]
       = Inr (FloatAmount (fl64 (199 / 20)))
   \<and> flt (fl64 (199 / 20)) (Fin 10)
   \<and> round_float (Fin 10) = Inr 10
   \<and> compute_contribution_plan
       \<lparr>holdings = [(''A'', Fin 0), (''B'', Fin 0)],
        targets = [(''A'', Fin (3 / 4)), (''B'', Fin (1 / 4))],
        asset_types = None\<rparr> (Fin (5 / 2)) (Fin 0)
     = Inr [(''A'', IntAmount 2), (''B'', IntAmount 1)]
   \<and> plan_sum [(''A'', IntAmount 2), (''B'', IntAmount 1)] = Inr (IntAmount 3)
   \<and> round_float (Fin (5 / 2)) = Inr 2"
  by (simp add: plan_eval)

text \<open>
  Claim C7 (no amount of the plan is negative). What the code computes for five assets
  with empty holdings, targets of 20 % each and a contribution of 3: every share is
  0.6000000000000001 and rounds to 1, the residual is \<^verbatim>\<open>round(3 - 5) = -2\<close>, and it is
  added to the first asset with the largest amount, which ends at -1.
\<close>

theorem plan_negative_amount:
  "compute_contribution_plan
     \<lparr>holdings = [(''A'', Fin 0), (''B'', Fin 0), (''C'', Fin 0), (''D'', Fin 0), (''E'', Fin 0)],
      targets = [(''A'', fl64 (1 / 5)), (''B'', fl64 (1 / 5)), (''C'', fl64 (1 / 5)),
                 (''D'', fl64 (1 / 5)), (''E'', fl64 (1 / 5))],
      asset_types = None\<rparr> (Fin 3) (Fin 0)
   = Inr [(''A'', IntAmount (- 1)), (''B'', IntAmount 1), (''C'', IntAmount 1),
          (''D'', IntAmount 1), (''E'', IntAmount 1)]"
  by (simp add: plan_eval)

section \<open>The portfolio\<close>




section \<open>The simulators\<close>

text \<open>
  Claim C4. For every positive number of years, both simulators return, and the trace
  each returns has exactly years times 12 elements.
\<close>

theorem trace_lengths:
  "0 < years \<Longrightarrow>
   (\<exists>v tr. simulate_constant_plan current_total monthly_contribution years annual_return
              extra_savings = Inr (v, tr) \<and> int (length tr) = years * 12)
   \<and> (\<exists>v tr. simulate_dca_ramp initial_monthly final_monthly years annual_return
                initial_value = Inr (v, tr) \<and> int (length tr) = years * 12)"
proof -
  assume y: "0 < years"
  obtain v1 t1 where c: "constant_loop monthly_contribution (monthly_rate annual_return)
      (nat (years * 12)) (current_total + extra_savings, []) = (v1, t1)"
    by (cases "constant_loop monthly_contribution (monthly_rate annual_return)
      (nat (years * 12)) (current_total + extra_savings, [])")
  obtain v2 t2 where r: "ramp_loop initial_monthly final_monthly (years * 12)
      (monthly_rate annual_return) [0 ..< nat (years * 12)] (initial_value, []) = (v2, t2)"
    by (cases "ramp_loop initial_monthly final_monthly (years * 12)
      (monthly_rate annual_return) [0 ..< nat (years * 12)] (initial_value, [])")
  have l1: "length t1 = nat (years * 12)"
    using constant_loop_length [of monthly_contribution "monthly_rate annual_return"
        "nat (years * 12)" "current_total + extra_savings" "[]"] c by simp
  have l2: "length t2 = nat (years * 12)"
    using ramp_loop_length [of initial_monthly final_monthly "years * 12"
        "monthly_rate annual_return" "[0 ..< nat (years * 12)]" initial_value "[]"] r by simp
  show ?thesis
    using y c r l1 l2 by (simp add: simulate_constant_plan_def simulate_dca_ramp_def Let_def)
qed

theorem trace_lengths_witness:
  "(0::int) < 1
   \<and> (\<exists>v tr. simulate_constant_plan 0 100 1 0 0 = Inr (v, tr) \<and> int (length tr) = 1 * 12)
   \<and> (\<exists>v tr. simulate_dca_ramp 100 200 1 0 0 = Inr (v, tr) \<and> int (length tr) = 1 * 12)"
  using trace_lengths
    [where years = 1 and current_total = 0 and monthly_contribution = 100
       and annual_return = 0 and extra_savings = 0 and initial_monthly = 100
       and final_monthly = 200 and initial_value = 0]
  by simp

text \<open>
  Claim C5. Each month the contribution is added first and growth is applied to the sum:
  every element of the trace is the previous value (the starting value for the first
  month) plus that month's contribution, times \<open>1 + r_m\<close>, and the value returned is the
  last element. With no return, 100 a month for one year gives a trace of 12 values that
  ends at 1200, the value returned.
\<close>

theorem contribution_before_growth:
  "(0 < years \<longrightarrow>
     (\<exists>v tr. simulate_constant_plan current_total monthly_contribution years annual_return
               extra_savings = Inr (v, tr)
        \<and> tr \<noteq> [] \<and> v = last tr
        \<and> (\<forall>m<length tr. tr ! m =
              ((if m = 0 then current_total + extra_savings else tr ! (m - 1))
               + monthly_contribution) * (1 + monthly_rate annual_return)))
     \<and> (\<exists>v tr. simulate_dca_ramp initial_monthly final_monthly years annual_return
                 initial_value = Inr (v, tr)
        \<and> tr \<noteq> [] \<and> v = last tr
        \<and> (\<forall>m<length tr. tr ! m =
              ((if m = 0 then initial_value else tr ! (m - 1))
               + ramp_contrib initial_monthly final_monthly (years * 12) m)
              * (1 + monthly_rate annual_return))))
   \<and> simulate_constant_plan 0 100 1 0 0 =
       Inr (1200, [100, 200, 300, 400, 500, 600, 700, 800, 900, 1000, 1100, 1200])
   \<and> length [100, 200, 300, 400, 500, 600, 700, 800, 900, 1000, 1100, 1200 :: real] = 12
   \<and> last [100, 200, 300, 400, 500, 600, 700, 800, 900, 1000, 1100, 1200 :: real] = 1200"
proof -
  have A: "\<exists>v tr. simulate_constant_plan current_total monthly_contribution years annual_return
               extra_savings = Inr (v, tr)
        \<and> tr \<noteq> [] \<and> v = last tr
        \<and> (\<forall>m<length tr. tr ! m =
              ((if m = 0 then current_total + extra_savings else tr ! (m - 1))
               + monthly_contribution) * (1 + monthly_rate annual_return))" if y: "0 < years"
  proof -
    from constant_loop_trace [of monthly_contribution "monthly_rate annual_return"
        "nat (years * 12)" "current_total + extra_savings" "[]"]
    obtain tr where
      run: "constant_loop monthly_contribution (monthly_rate annual_return) (nat (years * 12))
              (current_total + extra_savings, []) =
            ((if nat (years * 12) = 0 then current_total + extra_savings else last tr), [] @ tr)"
      and len: "length tr = nat (years * 12)"
      and rec: "\<forall>i<nat (years * 12). tr ! i =
              ((if i = 0 then current_total + extra_savings else tr ! (i - 1))
               + monthly_contribution) * (1 + monthly_rate annual_return)"
      by blast
    from y have pos: "nat (years * 12) \<noteq> 0" by simp
    with len have ne: "tr \<noteq> []" by auto
    have "simulate_constant_plan current_total monthly_contribution years annual_return
               extra_savings = Inr (last tr, tr)"
      using y run pos by (simp add: simulate_constant_plan_def Let_def)
    with ne rec len show ?thesis by simp
  qed
  have B: "\<exists>v tr. simulate_dca_ramp initial_monthly final_monthly years annual_return
                 initial_value = Inr (v, tr)
        \<and> tr \<noteq> [] \<and> v = last tr
        \<and> (\<forall>m<length tr. tr ! m =
              ((if m = 0 then initial_value else tr ! (m - 1))
               + ramp_contrib initial_monthly final_monthly (years * 12) m)
              * (1 + monthly_rate annual_return))" if y: "0 < years"
  proof -
    from ramp_loop_trace [of initial_monthly final_monthly "years * 12"
        "monthly_rate annual_return" "[0 ..< nat (years * 12)]" initial_value "[]"]
    obtain tr where
      run: "ramp_loop initial_monthly final_monthly (years * 12) (monthly_rate annual_return)
              [0 ..< nat (years * 12)] (initial_value, []) =
            ((if [0 ..< nat (years * 12)] = [] then initial_value else last tr), [] @ tr)"
      and len: "length tr = length [0 ..< nat (years * 12)]"
      and rec: "\<forall>i<length [0 ..< nat (years * 12)]. tr ! i =
              ((if i = 0 then initial_value else tr ! (i - 1))
               + ramp_contrib initial_monthly final_monthly (years * 12)
                   ([0 ..< nat (years * 12)] ! i)) * (1 + monthly_rate annual_return)"
      by blast
    from y have pos: "nat (years * 12) \<noteq> 0" by simp
    with len have ne: "tr \<noteq> []" by auto
    have run': "simulate_dca_ramp initial_monthly final_monthly years annual_return
                 initial_value = Inr (last tr, tr)"
      using y run pos by (simp add: simulate_dca_ramp_def Let_def)
    have rec': "\<forall>m<length tr. tr ! m =
              ((if m = 0 then initial_value else tr ! (m - 1))
               + ramp_contrib initial_monthly final_monthly (years * 12) m)
              * (1 + monthly_rate annual_return)"
      using rec len by simp
    from run' ne rec' show ?thesis by blast
  qed
  have C: "simulate_constant_plan 0 100 1 0 0 =
       Inr (1200, [100, 200, 300, 400, 500, 600, 700, 800, 900, 1000, 1100, 1200])"
    by (simp add: simulate_constant_plan_def monthly_rate_zero Let_def numeral_eq_Suc)
  from A B C show ?thesis by simp
qed

theorem contribution_before_growth_witness:
  "(0::int) < 1
   \<and> (\<exists>v tr. simulate_dca_ramp 100 200 1 0 50 = Inr (v, tr) \<and> tr \<noteq> [] \<and> v = last tr
         \<and> tr ! 0 = 150)"
proof -
  have h: "(0::int) < 1" by simp
  from h contribution_before_growth
    [where years = 1 and initial_monthly = 100 and final_monthly = 200
       and annual_return = 0 and initial_value = 50]
  have "\<exists>v tr. simulate_dca_ramp 100 200 1 0 50 = Inr (v, tr)
        \<and> tr \<noteq> [] \<and> v = last tr
        \<and> (\<forall>m<length tr. tr ! m =
              ((if m = 0 then 50 else tr ! (m - 1))
               + ramp_contrib 100 200 (1 * 12) m)
              * (1 + monthly_rate 0))"
    by blast
  then obtain v tr where run: "simulate_dca_ramp 100 200 1 0 50 = Inr (v, tr)"
    and ne: "tr \<noteq> []" and v: "v = last tr"
    and rec: "\<forall>m<length tr. tr ! m =
        ((if m = 0 then 50 else tr ! (m - 1)) + ramp_contrib 100 200 (1 * 12) m)
        * (1 + monthly_rate 0)"
    by blast
  from ne have "0 < length tr" by simp
  with rec have "tr ! 0 = ((if (0::nat) = 0 then 50 else tr ! (0 - 1)) + ramp_contrib 100 200 (1 * 12) 0) * (1 + monthly_rate 0)"
    by blast
  then have "tr ! 0 = 150"
    by (simp add: ramp_contrib_def monthly_rate_zero)
  with run ne v show ?thesis by simp
qed

text \<open>
  Claim C6. For a positive number of years and a return that is not negative, the final
  value of the constant plan does not decrease when the monthly contribution grows.
\<close>

theorem constant_plan_monotone:
  "0 < years \<Longrightarrow> 0 \<le> annual_return \<Longrightarrow> Ca \<le> Cb \<Longrightarrow>
   \<exists>v1 t1 v2 t2.
     simulate_constant_plan current_total Ca years annual_return extra_savings = Inr (v1, t1)
     \<and> simulate_constant_plan current_total Cb years annual_return extra_savings = Inr (v2, t2)
     \<and> v1 \<le> v2"
proof -
  assume y: "0 < years" and le: "Ca \<le> Cb"
  let ?r = "monthly_rate annual_return"
  let ?n = "nat (years * 12)"
  let ?s = "(current_total + extra_savings, [])"
  have "fst (constant_loop Ca ?r ?n ?s) \<le> fst (constant_loop Cb ?r ?n ?s)"
    by (rule constant_loop_mono [OF monthly_rate_growth le]) simp
  then show ?thesis
    using y by (cases "constant_loop Ca ?r ?n ?s"; cases "constant_loop Cb ?r ?n ?s")
      (simp add: simulate_constant_plan_def Let_def)
qed

theorem constant_plan_monotone_witness:
  "(0::int) < 1 \<and> (0::real) \<le> 0 \<and> (100::real) \<le> 200
   \<and> (\<exists>v1 t1 v2 t2.
        simulate_constant_plan 0 100 1 0 0 = Inr (v1, t1)
        \<and> simulate_constant_plan 0 200 1 0 0 = Inr (v2, t2)
        \<and> v1 \<le> v2)"
  using constant_plan_monotone
    [where years = 1 and annual_return = 0 and Ca = 100 and Cb = 200
       and current_total = 0 and extra_savings = 0]
  by simp

text \<open>
  Claim C10. A ramp whose two endpoints are the same amount is the constant plan: with
  the same years, return and starting value, and no extra savings, the two simulators
  return the same final value and the same trace (and the same error when years is not
  positive).
\<close>

theorem ramp_equal_endpoints:
  "simulate_dca_ramp C C years annual_return v = simulate_constant_plan v C years annual_return 0"
  by (simp add: simulate_dca_ramp_def simulate_constant_plan_def Let_def ramp_loop_const)

theorem ramp_equal_endpoints_witness:
  "simulate_dca_ramp 100 100 1 0 0 =
   Inr (1200, [100, 200, 300, 400, 500, 600, 700, 800, 900, 1000, 1100, 1200])"
  unfolding ramp_equal_endpoints [of 100 1 0 0]
  by (simp add: simulate_constant_plan_def monthly_rate_zero Let_def numeral_eq_Suc)

section \<open>Errors and the goal solvers\<close>

text \<open>
  Claim C2, as the code has it. \<^verbatim>\<open>compute_contribution_plan\<close> raises its ValueError
  whenever the key sets of holdings and targets differ. When they are equal it returns a
  plan, unless a share or the residual is NaN or infinite, or the sum of the rounded
  amounts is too large for a float: then the conversion to an int or to a float raises.
  Both goal solvers raise a ValueError whenever years is not positive, the annual return
  is negative or the tax rate is outside the interval from 0 to 1. A call either raises
  or returns: an error carries no partial result.
\<close>

theorem invalid_input_errors:
  "(set (keys (holdings p)) \<noteq> set (keys (targets p)) \<longrightarrow>
      compute_contribution_plan p mc th
        = Inl (ValueError ''Las claves de holdings y targets deben coincidir.''))
   \<and> (set (keys (holdings p)) = set (keys (targets p)) \<longrightarrow>
        (\<exists>plan. compute_contribution_plan p mc th = Inr plan)
        \<or> compute_contribution_plan p mc th
            = Inl (ValueError ''cannot convert float NaN to integer'')
        \<or> compute_contribution_plan p mc th
            = Inl (OverflowError ''cannot convert float infinity to integer'')
        \<or> compute_contribution_plan p mc th
            = Inl (OverflowError ''int too large to convert to float''))
   \<and> (years \<le> 0 \<or> ar < 0 \<or> tr < 0 \<or> 1 < tr \<longrightarrow>
        (\<exists>msg. required_constant_monthly_for_goal ct obj years ar es tr
                 = Inl (ValueError msg))
        \<and> (\<exists>msg. required_growing_monthlies_for_goal ct obj years ar im es tr
                   = Inl (ValueError msg)))"
proof -
  have a: "set (keys (holdings p)) \<noteq> set (keys (targets p)) \<longrightarrow>
      compute_contribution_plan p mc th
        = Inl (ValueError ''Las claves de holdings y targets deben coincidir.'')"
    by (simp add: compute_contribution_plan_def)
  have b: "set (keys (holdings p)) = set (keys (targets p)) \<longrightarrow>
        (\<exists>plan. compute_contribution_plan p mc th = Inr plan)
        \<or> compute_contribution_plan p mc th
            = Inl (ValueError ''cannot convert float NaN to integer'')
        \<or> compute_contribution_plan p mc th
            = Inl (OverflowError ''cannot convert float infinity to integer'')
        \<or> compute_contribution_plan p mc th
            = Inl (OverflowError ''int too large to convert to float'')"
    using plan_returns_or_conversion_error by blast
  have c: "years \<le> 0 \<or> ar < 0 \<or> tr < 0 \<or> 1 < tr \<longrightarrow>
        (\<exists>msg. required_constant_monthly_for_goal ct obj years ar es tr
                 = Inl (ValueError msg))
        \<and> (\<exists>msg. required_growing_monthlies_for_goal ct obj years ar im es tr
                   = Inl (ValueError msg))"
    using goal_solvers_raise by blast
  from a b c show ?thesis by blast
qed

theorem invalid_input_errors_witness:
  "compute_contribution_plan
     \<lparr>holdings = [(''A'', Fin 100)], targets = [(''B'', Fin 1)], asset_types = None\<rparr>
     (Fin 50) (Fin 0)
     = Inl (ValueError ''Las claves de holdings y targets deben coincidir.'')
   \<and> (\<exists>msg. required_constant_monthly_for_goal 0 1000 0 0 0 0 = Inl (ValueError msg))
   \<and> (\<exists>msg. required_growing_monthlies_for_goal 0 1000 0 0 100 0 0 = Inl (ValueError msg))
   \<and> compute_contribution_plan
        \<lparr>holdings = [(''A'', Fin 100)], targets = [(''A'', Fin 1)], asset_types = None\<rparr>
        (Fin 50) (Fin 0)
      = Inr [(''A'', IntAmount 50)]"
  using
    invalid_input_errors
      [where p = "\<lparr>holdings = [(''A'', Fin 100)], targets = [(''B'', Fin 1)],
                   asset_types = None\<rparr>"
         and mc = "Fin 50" and th = "Fin 0" and years = 0 and ar = 0 and tr = 0 and ct = 0
         and obj = 1000 and es = 0 and im = 100]
    invalid_input_errors
      [where p = "\<lparr>holdings = [(''A'', Fin 100)], targets = [(''A'', Fin 1)],
                   asset_types = None\<rparr>"
         and mc = "Fin 50" and th = "Fin 0" and years = 0 and ar = 0 and tr = 0 and ct = 0
         and obj = 1000 and es = 0 and im = 100]
  by (simp add: plan_eval)

text \<open>
  With equal key sets the allocator can still raise: two holdings of 1e308 add up to
  infinity, every share becomes \<^verbatim>\<open>inf / inf\<close>, which is NaN, and \<^verbatim>\<open>int(round(nan))\<close> raises
  a ValueError.
\<close>

theorem overflow_raises:
  "set (keys [(''A'', fl64 (10 ^ 308)), (''B'', fl64 (10 ^ 308))])
     = set (keys [(''A'', Fin (1 / 2)), (''B'', Fin (1 / 2))])
   \<and> compute_contribution_plan
       \<lparr>holdings = [(''A'', fl64 (10 ^ 308)), (''B'', fl64 (10 ^ 308))],
        targets = [(''A'', Fin (1 / 2)), (''B'', Fin (1 / 2))],
        asset_types = None\<rparr> (Fin 100) (Fin 0)
     = Inl (ValueError ''cannot convert float NaN to integer'')"
  by (simp add: plan_eval)

text \<open>
  Claim C8. On valid arguments the net final value of the plan with no monthly
  contribution is defined, and when it reaches the goal
  \<^verbatim>\<open>required_constant_monthly_for_goal\<close> returns 0. With nothing invested, a goal of 0,
  one year and a return of 5 % it returns 0.
\<close>

theorem goal_already_met:
  "(0 < years \<and> 0 \<le> ar \<and> 0 \<le> tr \<and> tr \<le> 1 \<longrightarrow>
      (\<exists>net0. net_final_with_monthly ct years ar es tr 0 = Inr net0
         \<and> (obj \<le> net0 \<longrightarrow>
              required_constant_monthly_for_goal ct obj years ar es tr = Inr 0)))
   \<and> required_constant_monthly_for_goal 0 0 1 (5 / 100) 0 0 = Inr 0"
proof -
  have a: "\<exists>net0. net_final_with_monthly ct years ar es tr 0 = Inr net0
         \<and> (obj \<le> net0 \<longrightarrow>
              required_constant_monthly_for_goal ct obj years ar es tr = Inr 0)"
    if v: "0 < years \<and> 0 \<le> ar \<and> 0 \<le> tr \<and> tr \<le> 1"
  proof -
    from v have "0 < years" by simp
    from net_final_with_monthly_ok [OF this] obtain net0 where
      n: "net_final_with_monthly ct years ar es tr 0 = Inr net0" by blast
    have "obj \<le> net0 \<longrightarrow> required_constant_monthly_for_goal ct obj years ar es tr = Inr 0"
      using v n by (simp add: required_constant_monthly_for_goal_def Let_def)
    with n show ?thesis by blast
  qed
  have b: "required_constant_monthly_for_goal 0 0 1 (5 / 100) 0 0 = Inr 0"
    by (simp add: required_constant_monthly_for_goal_def net_final_zero_plan Let_def)
  from a b show ?thesis by blast
qed

theorem goal_already_met_witness:
  "(0::int) < 1 \<and> (0::real) \<le> 0 \<and> (0::real) \<le> 1
   \<and> net_final_with_monthly 1000 1 0 0 0 0 = Inr 1000
   \<and> (900::real) \<le> 1000
   \<and> required_constant_monthly_for_goal 1000 900 1 0 0 0 = Inr 0"
proof -
  have n: "net_final_with_monthly 1000 1 0 0 0 0 = Inr 1000"
    by (simp add: net_final_with_monthly_def simulate_constant_plan_def monthly_rate_zero
          py_round_def Let_def numeral_eq_Suc)
  from goal_already_met
    [where years = 1 and ar = 0 and tr = 0 and ct = 1000 and es = 0 and obj = 900] n
  show ?thesis by simp
qed

end
